theory Spec2Isabelle
  imports Complex_Main
begin

section \<open>Surrogate reconstruction and config parsing of \<open>navigation/infer_page.py\<close>\<close>

text \<open>
  The page module has two pieces of logic of its own: the class \<open>Reconstructor\<close> with
  its method \<open>reconstruct_with_xgboost\<close> (used by \<open>generate_data\<close>), and the function
  \<open>get_parameters_from_config\<close>. Both are embedded here as HOL functions. The floats of
  the reconstruction are idealised as \<open>real\<close>; the floats of config parsing are the values
  of a type parameter, with \<open>float\<close> and \<open>+\<close> on them taken as parameters. Every exception
  the code can raise on the modelled inputs is a value of the type \<open>error\<close>, and a function
  that can raise returns \<open>error + 'a\<close>.
\<close>

datatype error =
    TypeError
  | KeyError
  | ValueError
  | AttributeError
  | NotImplementedError
  | DimensionMismatchError
  | UnboundLocalError
  | OverflowError

subsection \<open>numpy arrays, as far as the code uses them\<close>

text \<open>
  An array is a scalar (zero-dimensional) or a sequence of arrays. \<open>squeeze\<close> removes every
  axis of length one, \<open>len\<close> of a zero-dimensional array raises \<open>TypeError\<close>
  (``len() of unsized object''), and \<open>a[:n]\<close> keeps the first \<open>n\<close> entries of the first
  axis.
\<close>

datatype 'a ndarray = Scalar 'a | Array "'a ndarray list"

fun squeeze :: "'a ndarray \<Rightarrow> 'a ndarray" where
  "squeeze (Scalar x) = Scalar x"
| "squeeze (Array [a]) = squeeze a"
| "squeeze (Array as) = Array (map squeeze as)"

fun len :: "'a ndarray \<Rightarrow> error + nat" where
  "len (Scalar x) = Inl TypeError"
| "len (Array as) = Inr (length as)"

fun slice_to :: "'a ndarray \<Rightarrow> nat \<Rightarrow> error + 'a ndarray" where
  "slice_to (Scalar x) n = Inl TypeError"
| "slice_to (Array as) n = Inr (Array (take n as))"

text \<open>
  A one-dimensional array read as a vector. The squeezed prediction for one feature row
  has at most one axis, so the other shapes do not arise in the method.
\<close>

fun scalar_of :: "'a ndarray \<Rightarrow> 'a option" where
  "scalar_of (Scalar x) = Some x"
| "scalar_of (Array as) = None"

fun vector_of :: "'a ndarray \<Rightarrow> error + 'a list" where
  "vector_of (Scalar x) = Inl DimensionMismatchError"
| "vector_of (Array as) =
     (if list_all (\<lambda>a. scalar_of a \<noteq> None) as
      then Inr (map (\<lambda>a. the (scalar_of a)) as)
      else Inl DimensionMismatchError)"

text \<open>
  \<open>np.max\<close> / \<open>ndarray.max()\<close> of a one-dimensional array: the largest entry, and
  \<open>ValueError\<close> on an array with no entry.
\<close>

fun np_max :: "real list \<Rightarrow> error + real" where
  "np_max [] = Inl ValueError"
| "np_max (x # xs) = Inr (fold max xs x)"

text \<open>\<open>np.arange(start, stop, step)\<close> on integers, for a positive step.\<close>

definition arange :: "int \<Rightarrow> int \<Rightarrow> int \<Rightarrow> int list" where
  "arange start stop step =
     map (\<lambda>k. start + step * int k) [0..<nat ((stop - start + step - 1) div step)]"

subsection \<open>The regressor and the basis\<close>

text \<open>
  The fitted booster is an opaque function from one feature row to the row of values it
  predicts. \<open>Booster.predict\<close> on a matrix of rows returns an array of shape
  \<open>(rows,)\<close> for a booster with a single output and of shape \<open>(rows, outputs)\<close>
  otherwise.
\<close>

definition predict :: "(real list \<Rightarrow> real list) \<Rightarrow> real list list \<Rightarrow> real ndarray" where
  "predict booster feat_mat =
     Array (map (\<lambda>row. case booster row of
                          [c] \<Rightarrow> Scalar c
                        | cs \<Rightarrow> Array (map Scalar cs)) feat_mat)"

definition vec_add :: "real list \<Rightarrow> real list \<Rightarrow> real list" where
  "vec_add xs ys = map2 (+) xs ys"

definition vec_scale :: "real \<Rightarrow> real list \<Rightarrow> real list" where
  "vec_scale a xs = map ((*) a) xs"

text \<open>
  Modelled from the spec: \<open>pyssam.SAM.morph_model\<close>, the library method that
  \<open>reconstruct_with_xgboost\<close> calls, is not part of the source tree. The spec gives the field as
  \<open>mean_vector + \<Sum>_{i=0}^{effective_modes-1} coefficient[i] * scale[i] * component_row[i]\<close>,
  with the component rows and scale values taken from the first \<open>effective_modes\<close> entries of
  the basis, and makes any shape mismatch a fatal error of the request
  (\<open>DimensionMismatchError\<close>). The first argument is the \<open>std\<close> attribute of the object.
\<close>

definition morph_model ::
  "real list \<Rightarrow> real list \<Rightarrow> real list list \<Rightarrow> real list \<Rightarrow> nat \<Rightarrow> error + real list" where
  "morph_model std mean components coefs num_modes =
     (if num_modes \<le> length coefs \<and> num_modes \<le> length std \<and> num_modes \<le> length components
         \<and> list_all (\<lambda>row. length row = length mean) (take num_modes components)
      then Inr (foldl (\<lambda>field i. vec_add field (vec_scale (coefs ! i * std ! i) (components ! i)))
                  mean [0..<num_modes])
      else Inl DimensionMismatchError)"

text \<open>
  The object state after \<open>__init__\<close>: the booster, the three arrays that \<open>_load_pyssam\<close>
  reads from the archive (\<open>mean\<close>, \<open>pca_components\<close>, and \<open>pca_std\<close>, which is stored in
  \<open>sam_obj.std\<close>), and the method \<open>sam_obj.morph_model\<close> of the library object, which
  reads the object's \<open>std\<close> (its first argument here).
\<close>

record Reconstructor =
  xgb_model :: "real list \<Rightarrow> real list"
  mean_dataset_columnvector :: "real list"
  pca_model_components :: "real list list"
  sam_obj_std :: "real list"
  sam_obj_morph_model ::
    "real list \<Rightarrow> real list \<Rightarrow> real list list \<Rightarrow> real list \<Rightarrow> nat \<Rightarrow> error + real list"

text \<open>
  \<open>__init__\<close> takes the two file names; the embedding takes what the files hold. The object
  it builds has the library's \<open>morph_model\<close>. The random dummy dataset that the library
  object is created with is not kept: only its \<open>std\<close>, which \<open>_load_pyssam\<close> overwrites,
  enters the expansion.
\<close>

definition Reconstructor_init ::
  "(real list \<Rightarrow> real list) \<Rightarrow> real list \<Rightarrow> real list list \<Rightarrow> real list \<Rightarrow> Reconstructor" where
  "Reconstructor_init booster mean components std =
     \<lparr> xgb_model = booster,
       mean_dataset_columnvector = mean,
       pca_model_components = components,
       sam_obj_std = std,
       sam_obj_morph_model = morph_model \<rparr>"

subsection \<open>\<open>Reconstructor.reconstruct_with_xgboost\<close>\<close>

text \<open>The method returns the field, or the value of \<open>reduction\<close> on it when one is given.\<close>

datatype recon_result = Field "real list" | Reduced real

text \<open>
  Lines 126 to 130: the feature row is \<open>[t, *param_list]\<close>, the prediction is squeezed, and
  the requested mode count is clamped by \<open>len(pod_coefs)\<close>. The mode count is a natural
  number (the page's slider supplies 2 to 4); a negative count is not modelled.
\<close>

definition pod_coefs_of :: "Reconstructor \<Rightarrow> real \<Rightarrow> real list \<Rightarrow> real ndarray" where
  "pod_coefs_of self t param_list = squeeze (predict (xgb_model self) [t # param_list])"

definition clamp_num_modes :: "real ndarray \<Rightarrow> nat \<Rightarrow> error + nat" where
  "clamp_num_modes pod_coefs num_modes =
     (case len pod_coefs of Inl e \<Rightarrow> Inl e | Inr l \<Rightarrow> Inr (min l num_modes))"

definition reconstruct_with_xgboost ::
  "Reconstructor \<Rightarrow> real \<Rightarrow> real list \<Rightarrow> (real list \<Rightarrow> error + real) option \<Rightarrow> nat
     \<Rightarrow> error + recon_result" where
  "reconstruct_with_xgboost self t param_list reduction num_modes =
     (let pod_coefs = pod_coefs_of self t param_list in
      case clamp_num_modes pod_coefs num_modes of
        Inl e \<Rightarrow> Inl e
      | Inr num_modes' \<Rightarrow>
          (case slice_to pod_coefs num_modes' of
             Inl e \<Rightarrow> Inl e
           | Inr sliced \<Rightarrow>
               (case vector_of sliced of
                  Inl e \<Rightarrow> Inl e
                | Inr coefs \<Rightarrow>
                    (case sam_obj_morph_model self (sam_obj_std self) (mean_dataset_columnvector self)
                            (pca_model_components self) coefs num_modes' of
                       Inl e \<Rightarrow> Inl e
                     | Inr recon_field \<Rightarrow>
                         (case reduction of
                            None \<Rightarrow> Inr (Field recon_field)
                          | Some f \<Rightarrow> (case f recon_field of
                                         Inl e \<Rightarrow> Inl e
                                       | Inr v \<Rightarrow> Inr (Reduced v)))))))"

subsection \<open>\<open>generate_data\<close>\<close>

text \<open>
  \<open>generate_data\<close> builds the object from the two files and loops over
  \<open>np.arange(5, 61, 5)\<close>. Reading the files is the libraries' work: the embedding takes
  the object that \<open>Reconstructor(xgb_file, pod_file)\<close> yields in place of the two file
  names. The loop carries \<open>out_temp\<close> and the variable \<open>data_out\<close>, which is unbound until
  the first iteration has run; the result is \<open>np.c_[time_list, out_temp]\<close>, a row
  \<open>(time, value)\<close> for each time point, together with the last \<open>data_out\<close>.
  \<open>ndarray.max()\<close> of a scalar is the scalar.
\<close>

definition time_list :: "int list" where
  "time_list = arange 5 61 5"

fun result_max :: "recon_result \<Rightarrow> error + real" where
  "result_max (Field field) = np_max field"
| "result_max (Reduced v) = Inr v"

fun generate_loop ::
  "Reconstructor \<Rightarrow> real list \<Rightarrow> nat \<Rightarrow> int list \<Rightarrow> real list \<Rightarrow> recon_result option
     \<Rightarrow> error + (real list \<times> recon_result option)" where
  "generate_loop recon_model coeff_list num_modes [] out_temp data_out = Inr (out_temp, data_out)"
| "generate_loop recon_model coeff_list num_modes (t # ts) out_temp data_out =
     (case reconstruct_with_xgboost recon_model (real_of_int t) coeff_list None num_modes of
        Inl e \<Rightarrow> Inl e
      | Inr data_out' \<Rightarrow>
          (case result_max data_out' of
             Inl e \<Rightarrow> Inl e
           | Inr m \<Rightarrow>
               generate_loop recon_model coeff_list num_modes ts (out_temp @ [m])
                 (Some data_out')))"

definition generate_data ::
  "real list \<Rightarrow> Reconstructor \<Rightarrow> nat \<Rightarrow> error + ((real \<times> real) list \<times> recon_result)" where
  "generate_data coeff_list recon_model num_modes =
     (case generate_loop recon_model coeff_list num_modes time_list [] None of
        Inl e \<Rightarrow> Inl e
      | Inr (out_temp, data_out) \<Rightarrow>
          (case data_out of
             None \<Rightarrow> Inl UnboundLocalError
           | Some d \<Rightarrow> Inr (zip (map real_of_int time_list) out_temp, d)))"

text \<open>The basis and regressor of the spec's worked example.\<close>

definition example_basis :: Reconstructor where
  "example_basis = Reconstructor_init (\<lambda>row. [2, 3]) [0, 0] [[1, 0], [0, 1]] [1, 1]"

text \<open>
  Three further concrete objects: a booster with a single output, a basis with fewer
  component rows than the booster has outputs, and a basis with three modes.
\<close>

definition single_output_model :: Reconstructor where
  "single_output_model = Reconstructor_init (\<lambda>row. [2]) [0, 0] [[1, 0], [0, 1]] [1, 1]"

definition short_basis :: Reconstructor where
  "short_basis = Reconstructor_init (\<lambda>row. [2, 3]) [0, 0] [[1, 0]] [1]"

definition three_mode_model :: Reconstructor where
  "three_mode_model =
     Reconstructor_init (\<lambda>row. [sum_list row, 1, 2]) [10, 20] [[1, 0], [0, 1], [1, 1]] [1, 2, 3]"


text \<open>The rows that \<open>example_basis\<close> yields: the field is \<open>[2, 3]\<close> at every time point.\<close>

definition example_series :: "(real \<times> real) list" where
  "example_series =
     [(5, 3), (10, 3), (15, 3), (20, 3), (25, 3), (30, 3),
      (35, 3), (40, 3), (45, 3), (50, 3), (55, 3), (60, 3)]"

subsection \<open>The loaded config\<close>

text \<open>
  \<open>hjson.load\<close> yields nested dictionaries with string keys, in the order of the file. The
  uq-toolkit format is made of objects, strings and numbers, and these are what is
  modelled (no lists, booleans or null). A number of the file is a Python \<open>int\<close> or a
  Python \<open>float\<close>; the floats are the values of the type \<open>'f\<close>. An object is an association
  list in file order; a loaded dictionary has no repeated key.
\<close>

datatype 'f json = JInt int | JFloat 'f | JStr string | JObj "(string \<times> 'f json) list"

text \<open>
  What Python does with floats is not computed here but taken as given: \<open>float\<close> of an
  \<open>int\<close> (the nearest double, and \<open>None\<close> where Python raises \<open>OverflowError\<close> because the
  \<open>int\<close> is too large), \<open>float\<close> of a string (\<open>None\<close> where Python raises \<open>ValueError\<close>), and
  the sum of two floats.
\<close>

record 'f float_ops =
  float_of_int :: "int \<Rightarrow> 'f option"
  float_of_str :: "string \<Rightarrow> 'f option"
  float_add :: "'f \<Rightarrow> 'f \<Rightarrow> 'f"

text \<open>An exception ends the computation: the rest runs on a value only.\<close>

definition err_bind :: "error + 'a \<Rightarrow> ('a \<Rightarrow> error + 'b) \<Rightarrow> error + 'b" where
  "err_bind m f = (case m of Inl e \<Rightarrow> Inl e | Inr x \<Rightarrow> f x)"

text \<open>
  \<open>d[k]\<close> with a string key raises \<open>KeyError\<close> when a dictionary lacks the key and
  \<open>TypeError\<close> on a string or a number. \<open>d.keys()\<close> exists on dictionaries only. A
  \<open>for\<close> loop over a dictionary runs over its keys, over a string over its characters, and
  raises \<open>TypeError\<close> on a number. \<open>a + b\<close> adds two ints exactly, adds two floats as
  floats, converts the \<open>int\<close> first when the other operand is a float, and concatenates
  strings. \<open>float\<close> of a float is the float, of a dictionary a \<open>TypeError\<close>.
\<close>

fun getitem :: "'f json \<Rightarrow> string \<Rightarrow> error + 'f json" where
  "getitem (JObj kvs) k = (case map_of kvs k of None \<Rightarrow> Inl KeyError | Some v \<Rightarrow> Inr v)"
| "getitem (JStr s) k = Inl TypeError"
| "getitem (JInt i) k = Inl TypeError"
| "getitem (JFloat x) k = Inl TypeError"

fun keys :: "'f json \<Rightarrow> error + string list" where
  "keys (JObj kvs) = Inr (map fst kvs)"
| "keys (JStr s) = Inl AttributeError"
| "keys (JInt i) = Inl AttributeError"
| "keys (JFloat x) = Inl AttributeError"

fun iter :: "'f json \<Rightarrow> error + string list" where
  "iter (JObj kvs) = Inr (map fst kvs)"
| "iter (JStr s) = Inr (map (\<lambda>c. [c]) s)"
| "iter (JInt i) = Inl TypeError"
| "iter (JFloat x) = Inl TypeError"

definition int_to_float :: "'f float_ops \<Rightarrow> int \<Rightarrow> error + 'f" where
  "int_to_float ops i = (case float_of_int ops i of None \<Rightarrow> Inl OverflowError | Some x \<Rightarrow> Inr x)"

fun py_add :: "'f float_ops \<Rightarrow> 'f json \<Rightarrow> 'f json \<Rightarrow> error + 'f json" where
  "py_add ops (JInt a) (JInt b) = Inr (JInt (a + b))"
| "py_add ops (JFloat x) (JFloat y) = Inr (JFloat (float_add ops x y))"
| "py_add ops (JInt a) (JFloat y) =
     err_bind (int_to_float ops a) (\<lambda>x. Inr (JFloat (float_add ops x y)))"
| "py_add ops (JFloat x) (JInt b) =
     err_bind (int_to_float ops b) (\<lambda>y. Inr (JFloat (float_add ops x y)))"
| "py_add ops (JStr a) (JStr b) = Inr (JStr (a @ b))"
| "py_add ops a b = Inl TypeError"

fun py_float :: "'f float_ops \<Rightarrow> 'f json \<Rightarrow> error + 'f" where
  "py_float ops (JInt i) = int_to_float ops i"
| "py_float ops (JFloat x) = Inr x"
| "py_float ops (JStr s) = (case float_of_str ops s of None \<Rightarrow> Inl ValueError | Some x \<Rightarrow> Inr x)"
| "py_float ops (JObj kvs) = Inl TypeError"

subsection \<open>\<open>get_parameters_from_config\<close>\<close>

text \<open>
  Opening and reading the file is the library's work: the embedding starts from the loaded
  \<open>config\<close>. The three lists are passed along the three nested loops; an exception
  abandons them. \<open>param_body\<close> is the body of the innermost loop (lines 225 to 243).
\<close>

type_synonym 'f param_lists = "'f json list \<times> 'f list \<times> 'f list"

definition param_body ::
  "'f float_ops \<Rightarrow> 'f json \<Rightarrow> string \<Rightarrow> string \<Rightarrow> 'f param_lists \<Rightarrow> error + 'f param_lists" where
  "param_body ops uq_config key_i param_i out =
     (case out of (name_list, min_val_list, max_val_list) \<Rightarrow>
      err_bind (getitem uq_config key_i) (\<lambda>params.
      err_bind (getitem params param_i) (\<lambda>uq_param_config.
      err_bind (getitem uq_param_config ''distribution'') (\<lambda>distribution.
      err_bind (getitem distribution ''name'') (\<lambda>name.
        if name \<noteq> JStr ''uniform'' then Inl NotImplementedError
        else
          err_bind (getitem uq_param_config ''human-description'') (\<lambda>description.
          err_bind (getitem distribution ''loc'') (\<lambda>loc.
          err_bind (py_float ops loc) (\<lambda>min_val.
          err_bind (getitem distribution ''scale'') (\<lambda>scale.
          err_bind (py_add ops loc scale) (\<lambda>loc_plus_scale.
          err_bind (py_float ops loc_plus_scale) (\<lambda>max_val.
            Inr (name_list @ [description], min_val_list @ [min_val],
                 max_val_list @ [max_val]))))))))))))"

fun param_loop ::
  "'f float_ops \<Rightarrow> 'f json \<Rightarrow> string \<Rightarrow> string list \<Rightarrow> 'f param_lists \<Rightarrow> error + 'f param_lists" where
  "param_loop ops uq_config key_i [] out = Inr out"
| "param_loop ops uq_config key_i (param_i # rest) out =
     err_bind (param_body ops uq_config key_i param_i out)
       (\<lambda>out'. param_loop ops uq_config key_i rest out')"

fun key_loop ::
  "'f float_ops \<Rightarrow> 'f json \<Rightarrow> string list \<Rightarrow> 'f param_lists \<Rightarrow> error + 'f param_lists" where
  "key_loop ops uq_config [] out = Inr out"
| "key_loop ops uq_config (key_i # rest) out =
     err_bind (getitem uq_config key_i) (\<lambda>params.
     err_bind (iter params) (\<lambda>param_names.
     err_bind (param_loop ops uq_config key_i param_names out)
       (\<lambda>out'. key_loop ops uq_config rest out')))"

fun app_loop ::
  "'f float_ops \<Rightarrow> 'f json \<Rightarrow> string list \<Rightarrow> 'f param_lists \<Rightarrow> error + 'f param_lists" where
  "app_loop ops config [] out = Inr out"
| "app_loop ops config (fname # rest) out =
     err_bind (getitem config ''apps'') (\<lambda>apps.
     err_bind (getitem apps fname) (\<lambda>app.
     err_bind (getitem app ''type'') (\<lambda>app_type.
       if app_type = JStr ''moose'' then
         err_bind (getitem app ''uncertain-params'') (\<lambda>uq_config.
         err_bind (iter uq_config) (\<lambda>uq_keys.
         err_bind (key_loop ops uq_config uq_keys out)
           (\<lambda>out'. app_loop ops config rest out')))
       else app_loop ops config rest out)))"

definition get_parameters_from_config ::
  "'f float_ops \<Rightarrow> 'f json \<Rightarrow> error + 'f param_lists" where
  "get_parameters_from_config ops config =
     err_bind (getitem config ''apps'') (\<lambda>apps.
     err_bind (keys apps) (\<lambda>app_name_list.
       app_loop ops config app_name_list ([], [], [])))"

text \<open>An app that has a type, and the type is not \<open>moose\<close>.\<close>

definition other_type :: "'f json \<Rightarrow> bool" where
  "other_type app =
     (case getitem app ''type'' of Inl e \<Rightarrow> False | Inr app_type \<Rightarrow> app_type \<noteq> JStr ''moose'')"

text \<open>
  Example configs: a uniform and a normal entry and an entry that lacks its description,
  under apps of type \<open>moose\<close> and \<open>json\<close>. Their numbers are small integers, on which the
  conversion to a double and the sum of doubles are exact: \<open>small_ops\<close> gives these, with
  the doubles read as reals, and is used on the examples only.
\<close>

definition small_ops :: "real float_ops" where
  "small_ops =
     \<lparr> float_of_int = (\<lambda>i. Some (real_of_int i)),
       float_of_str = (\<lambda>s. None),
       float_add = (\<lambda>x y. x + y) \<rparr>"

definition uniform_entry :: "real json" where
  "uniform_entry =
     JObj [(''distribution'', JObj [(''name'', JStr ''uniform''), (''loc'', JInt 300), (''scale'', JInt 50)]),
           (''human-description'', JStr ''Coolant temperature'')]"

definition normal_entry :: "real json" where
  "normal_entry =
     JObj [(''distribution'', JObj [(''name'', JStr ''normal''), (''loc'', JInt 1), (''scale'', JInt 2)]),
           (''human-description'', JStr ''Conductivity'')]"

definition unlabelled_entry :: "real json" where
  "unlabelled_entry =
     JObj [(''distribution'', JObj [(''name'', JStr ''uniform''), (''loc'', JInt 1), (''scale'', JInt 2)])]"

definition hive_app :: "real json" where
  "hive_app =
     JObj [(''type'', JStr ''moose''),
           (''uncertain-params'', JObj [(''BCs'', JObj [(''coolant'', uniform_entry)])])]"

definition post_app :: "real json" where
  "post_app =
     JObj [(''type'', JStr ''json''),
           (''uncertain-params'', JObj [(''Materials'', JObj [(''k'', normal_entry)])])]"

definition mixed_config :: "real json" where
  "mixed_config = JObj [(''apps'', JObj [(''hive'', hive_app), (''post'', post_app)])]"

definition json_first_config :: "real json" where
  "json_first_config = JObj [(''apps'', JObj [(''post'', post_app), (''hive'', hive_app)])]"

definition hive_only_config :: "real json" where
  "hive_only_config = JObj [(''apps'', JObj [(''hive'', hive_app)])]"

definition materials_app :: "real json" where
  "materials_app =
     JObj [(''type'', JStr ''moose''),
           (''uncertain-params'',
              JObj [(''BCs'', JObj [(''coolant'', uniform_entry)]),
                    (''Materials'', JObj [(''k'', normal_entry), (''rho'', unlabelled_entry)])])]"

definition moose_normal_config :: "real json" where
  "moose_normal_config = JObj [(''apps'', JObj [(''hive'', materials_app)])]"

section \<open>Properties\<close>

lemma squeeze_predict_one:
  "booster row = [c] \<Longrightarrow> squeeze (predict booster [row]) = Scalar c"
  by (simp add: predict_def)

lemma squeeze_scalars: "length cs \<noteq> 1 \<Longrightarrow> squeeze (Array (map Scalar cs)) = Array (map Scalar cs)"
proof (cases cs)
  case Nil
  then show ?thesis by simp
next
  case (Cons c cs')
  assume "length cs \<noteq> 1"
  with Cons obtain d ds where "cs' = d # ds" by (cases cs') auto
  with Cons show ?thesis by (simp add: comp_def)
qed

lemma squeeze_predict_many:
  assumes "length (booster row) \<noteq> 1"
  shows "squeeze (predict booster [row]) = Array (map Scalar (booster row))"
proof -
  have "(case booster row of [c] \<Rightarrow> Scalar c | cs \<Rightarrow> Array (map Scalar cs))
          = Array (map Scalar (booster row))"
    using assms by (auto split: list.splits)
  then show ?thesis
    using assms by (simp add: predict_def squeeze_scalars)
qed

lemma vector_of_scalars: "vector_of (Array (map Scalar cs)) = Inr cs"
  by (simp add: list_all_iff comp_def)

lemma reconstruct_many:
  assumes "length (xgb_model self (t # param_list)) \<noteq> 1"
  shows "reconstruct_with_xgboost self t param_list None num_modes =
           map_sum id Field
             (sam_obj_morph_model self (sam_obj_std self) (mean_dataset_columnvector self)
                (pca_model_components self)
                (take (min (length (xgb_model self (t # param_list))) num_modes)
                   (xgb_model self (t # param_list)))
                (min (length (xgb_model self (t # param_list))) num_modes))"
proof -
  have pc: "pod_coefs_of self t param_list = Array (map Scalar (xgb_model self (t # param_list)))"
    using assms by (simp add: pod_coefs_of_def squeeze_predict_many)
  show ?thesis
    unfolding reconstruct_with_xgboost_def pc Let_def clamp_num_modes_def
    by (simp add: take_map vector_of_scalars del: vector_of.simps split: sum.splits)
qed

text \<open>
  C6. For the basis with mean \<open>[0,0]\<close>, components \<open>[[1,0],[0,1]]\<close>, scale \<open>[1,1]\<close> and a
  regressor that always predicts \<open>[2,3]\<close>, reconstruction with two modes returns the field
  \<open>[2,3]\<close>, whatever the time and the parameters are.
\<close>

theorem reconstruct_example:
  "reconstruct_with_xgboost example_basis t param_list None 2 = Inr (Field [2, 3])"
proof -
  have l: "length (xgb_model example_basis (t # param_list)) \<noteq> 1"
    by (simp add: example_basis_def Reconstructor_init_def)
  have m: "morph_model [1, 1] [0, 0] [[1, 0], [0, 1]] [2, 3] (Suc (Suc 0)) = Inr [2, 3]"
    by (simp add: morph_model_def vec_add_def vec_scale_def upt_rec)
  show ?thesis
    using m by (simp add: reconstruct_many [OF l]) (simp add: example_basis_def Reconstructor_init_def)
qed

lemma pod_coefs_one:
  "xgb_model self (t # param_list) = [c] \<Longrightarrow> pod_coefs_of self t param_list = Scalar c"
  by (simp add: pod_coefs_of_def squeeze_predict_one)

lemma pod_coefs_many:
  "length (xgb_model self (t # param_list)) \<noteq> 1 \<Longrightarrow>
     pod_coefs_of self t param_list = Array (map Scalar (xgb_model self (t # param_list)))"
  by (simp add: pod_coefs_of_def squeeze_predict_many)

lemma reconstruct_one:
  assumes "length (xgb_model self (t # param_list)) = 1"
  shows "reconstruct_with_xgboost self t param_list reduction num_modes = Inl TypeError"
proof -
  from assms obtain c where "xgb_model self (t # param_list) = [c]"
    by (cases "xgb_model self (t # param_list)") auto
  then have "pod_coefs_of self t param_list = Scalar c"
    by (rule pod_coefs_one)
  then show ?thesis
    by (simp add: reconstruct_with_xgboost_def clamp_num_modes_def)
qed

lemma clamp_many:
  assumes "length (xgb_model self (t # param_list)) \<noteq> 1"
  shows "clamp_num_modes (pod_coefs_of self t param_list) num_modes =
           Inr (min (length (xgb_model self (t # param_list))) num_modes)"
  using assms by (simp add: pod_coefs_many clamp_num_modes_def)

lemma morph_model_zero: "morph_model std mean components coefs 0 = Inr mean"
  by (simp add: morph_model_def)

text \<open>
  C9. When the regressor emits exactly one coefficient, the squeezed prediction is
  zero-dimensional and \<open>len\<close> raises: the method fails with \<open>TypeError\<close> for every requested
  mode count and every reduction. With two or more coefficients the clamp raises nothing
  and yields the minimum of the vector's length and the requested count.
\<close>

theorem reconstruct_single_coefficient:
  "(length (xgb_model self (t # param_list)) = 1 \<longrightarrow>
      pod_coefs_of self t param_list = Scalar (hd (xgb_model self (t # param_list)))
      \<and> len (pod_coefs_of self t param_list) = Inl TypeError
      \<and> reconstruct_with_xgboost self t param_list reduction num_modes = Inl TypeError)
   \<and> (2 \<le> length (xgb_model self (t # param_list)) \<longrightarrow>
      clamp_num_modes (pod_coefs_of self t param_list) num_modes =
        Inr (min (length (xgb_model self (t # param_list))) num_modes))"
proof (intro conjI impI)
  assume l: "length (xgb_model self (t # param_list)) = 1"
  then obtain c where c: "xgb_model self (t # param_list) = [c]"
    by (cases "xgb_model self (t # param_list)") auto
  show "pod_coefs_of self t param_list = Scalar (hd (xgb_model self (t # param_list)))"
    using c by (simp add: pod_coefs_one)
  then show "len (pod_coefs_of self t param_list) = Inl TypeError"
    by simp
  show "reconstruct_with_xgboost self t param_list reduction num_modes = Inl TypeError"
    using l by (rule reconstruct_one)
next
  assume "2 \<le> length (xgb_model self (t # param_list))"
  then have "length (xgb_model self (t # param_list)) \<noteq> 1" by simp
  then show "clamp_num_modes (pod_coefs_of self t param_list) num_modes =
               Inr (min (length (xgb_model self (t # param_list))) num_modes)"
    by (rule clamp_many)
qed

theorem reconstruct_single_coefficient_witness:
  "reconstruct_with_xgboost single_output_model 5 [1] None 1 = Inl TypeError
   \<and> clamp_num_modes (pod_coefs_of three_mode_model 5 [1]) 4 = Inr 3"
proof -
  have a: "length (xgb_model single_output_model (5 # [1])) = 1"
    by (simp add: single_output_model_def Reconstructor_init_def)
  have b: "2 \<le> length (xgb_model three_mode_model (5 # [1]))"
    by (simp add: three_mode_model_def Reconstructor_init_def)
  have c: "min (length (xgb_model three_mode_model (5 # [1]))) 4 = 3"
    by (simp add: three_mode_model_def Reconstructor_init_def)
  show ?thesis
    using a b c
      reconstruct_single_coefficient [of single_output_model 5 "[1]" None 1]
      reconstruct_single_coefficient [of three_mode_model 5 "[1]" None 4]
    by simp
qed

text \<open>
  C1. The clamp is meant to turn a request for more modes than the regressor predicts into
  the number it predicts, without an error. With a regressor of one output and a request
  for two modes it raises \<open>TypeError\<close> instead of reconstructing with one mode.
\<close>

theorem reconstruct_single_output_raises:
  "xgb_model single_output_model (5 # [1]) = [2]
   \<and> reconstruct_with_xgboost single_output_model 5 [1] None 2 = Inl TypeError"
proof -
  have "length (xgb_model single_output_model (5 # [1])) = 1"
    by (simp add: single_output_model_def Reconstructor_init_def)
  then have "reconstruct_with_xgboost single_output_model 5 [1] None 2 = Inl TypeError"
    by (rule reconstruct_one)
  then show ?thesis
    by (simp add: single_output_model_def Reconstructor_init_def)
qed

lemma reconstruct_zero_modes_many:
  assumes "length (booster (t # param_list)) \<noteq> 1"
    and "list_all (\<lambda>row. length row = length mean) components"
  shows "reconstruct_with_xgboost (Reconstructor_init booster mean components std)
           t param_list None 0 = Inr (Field mean)"
proof -
  from assms(1)
  have "length (xgb_model (Reconstructor_init booster mean components std) (t # param_list)) \<noteq> 1"
    by (simp add: Reconstructor_init_def)
  then show ?thesis
    by (simp add: reconstruct_many) (simp add: Reconstructor_init_def morph_model_zero)
qed

text \<open>
  C5. With zero modes requested the method is meant to return the mean vector. With a
  regressor of one output it raises \<open>TypeError\<close> instead, for the same reason as in C1: the
  squeezed prediction has no length, and \<open>len\<close> is taken before the expansion is reached.
\<close>

theorem reconstruct_zero_modes_raises:
  "xgb_model single_output_model (5 # [1]) = [2]
   \<and> mean_dataset_columnvector single_output_model = [0, 0]
   \<and> reconstruct_with_xgboost single_output_model 5 [1] None 0 = Inl TypeError"
proof -
  have "length (xgb_model single_output_model (5 # [1])) = 1"
    by (simp add: single_output_model_def Reconstructor_init_def)
  then have "reconstruct_with_xgboost single_output_model 5 [1] None 0 = Inl TypeError"
    by (rule reconstruct_one)
  then show ?thesis
    by (simp add: single_output_model_def Reconstructor_init_def)
qed

lemma morph_model_in_bounds:
  "morph_model std mean components coefs k =
     (if k \<le> length coefs \<and> k \<le> length std \<and> k \<le> length components
         \<and> (\<forall>i<k. length (components ! i) = length mean)
      then Inr (foldl (\<lambda>field i. vec_add field (vec_scale (coefs ! i * std ! i) (components ! i)))
                  mean [0..<k])
      else Inl DimensionMismatchError)"
proof -
  have "k \<le> length components \<Longrightarrow>
      list_all (\<lambda>row. length row = length mean) (take k components)
        = (\<forall>i<k. length (components ! i) = length mean)"
    by (simp add: list_all_length)
  then show ?thesis
    by (auto simp: morph_model_def)
qed

lemma reconstruct_short_basis_fails:
  "reconstruct_with_xgboost short_basis 5 [1] None 2 = Inl DimensionMismatchError"
proof -
  have a: "length (xgb_model short_basis (5 # [1])) \<noteq> 1"
    by (simp add: short_basis_def Reconstructor_init_def)
  show ?thesis
    by (simp add: reconstruct_many [OF a])
       (simp add: short_basis_def Reconstructor_init_def morph_model_def)
qed

text \<open>
  C2 (as the code has it). The effective mode count is the minimum of the requested count
  and the length of the predicted coefficient vector, and of nothing else: the method does
  not look at the number of component rows or scale entries. It hands the library's
  \<open>morph_model\<close> the whole basis, exactly the first that many coefficients, and that count,
  and returns what \<open>morph_model\<close> returns. Stated for a coefficient vector whose length is
  not one.
\<close>

theorem reconstruct_effective_modes:
  assumes "length (xgb_model self (t # param_list)) \<noteq> 1"
  shows "clamp_num_modes (pod_coefs_of self t param_list) num_modes =
           Inr (min (length (xgb_model self (t # param_list))) num_modes)
         \<and> reconstruct_with_xgboost self t param_list None num_modes =
             map_sum id Field
               (sam_obj_morph_model self (sam_obj_std self) (mean_dataset_columnvector self)
                  (pca_model_components self)
                  (take (min (length (xgb_model self (t # param_list))) num_modes)
                     (xgb_model self (t # param_list)))
                  (min (length (xgb_model self (t # param_list))) num_modes))"
  using assms by (simp add: clamp_many reconstruct_many)

theorem reconstruct_effective_modes_witness:
  "clamp_num_modes (pod_coefs_of three_mode_model 5 [1]) 2 = Inr 2
   \<and> reconstruct_with_xgboost three_mode_model 5 [1] None 2 = Inr (Field [16, 22])"
proof -
  have a: "length (xgb_model three_mode_model (5 # [1])) \<noteq> 1"
    by (simp add: three_mode_model_def Reconstructor_init_def)
  have k: "min (length (xgb_model three_mode_model (5 # [1]))) 2 = 2"
    by (simp add: three_mode_model_def Reconstructor_init_def)
  have m: "sam_obj_morph_model three_mode_model (sam_obj_std three_mode_model)
             (mean_dataset_columnvector three_mode_model) (pca_model_components three_mode_model)
             (take 2 (xgb_model three_mode_model (5 # [1]))) 2 = Inr [16, 22]"
    by (simp add: three_mode_model_def Reconstructor_init_def morph_model_def vec_add_def
          vec_scale_def upt_rec numeral_2_eq_2)
  from reconstruct_effective_modes [OF a, of 2]
  show ?thesis
    unfolding k m by simp
qed

theorem effective_modes_exceed_rows:
  "length (xgb_model short_basis (5 # [1])) = 2
   \<and> length (pca_model_components short_basis) = 1
   \<and> clamp_num_modes (pod_coefs_of short_basis 5 [1]) 2 = Inr 2"
proof -
  have a: "length (xgb_model short_basis (5 # [1])) \<noteq> 1"
    by (simp add: short_basis_def Reconstructor_init_def)
  have "clamp_num_modes (pod_coefs_of short_basis 5 [1]) 2 = Inr 2"
    by (simp add: clamp_many [OF a]) (simp add: short_basis_def Reconstructor_init_def)
  then show ?thesis
    by (simp add: short_basis_def Reconstructor_init_def)
qed

subsection \<open>The time series\<close>

lemma time_list_eq: "time_list = [5, 10, 15, 20, 25, 30, 35, 40, 45, 50, 55, 60]"
  by (simp add: time_list_def arange_def upt_rec)

lemma np_max_eq: "np_max xs = Inr m \<longleftrightarrow> xs \<noteq> [] \<and> m = Max (set xs)"
proof (cases xs)
  case Nil
  then show ?thesis by simp
next
  case (Cons x xs')
  have "fold max xs' x = Max (set (x # xs'))"
    by (rule Max.set_eq_fold [symmetric])
  with Cons show ?thesis by auto
qed

lemma reconstruct_None_Field:
  "reconstruct_with_xgboost self t param_list None num_modes = Inr res \<Longrightarrow> \<exists>field. res = Field field"
  by (auto simp: reconstruct_with_xgboost_def Let_def split: sum.splits)

text \<open>
  The loop returns exactly when every reconstruction returns a field with an entry; it
  then has appended the maximum of each field, in order, and holds the last field.
\<close>

lemma generate_loop_iff:
  "generate_loop r c n ts out d = Inr res \<longleftrightarrow>
     (\<exists>F. (\<forall>t\<in>set ts. reconstruct_with_xgboost r (real_of_int t) c None n = Inr (Field (F t))
                         \<and> F t \<noteq> [])
          \<and> res = (out @ map (\<lambda>t. Max (set (F t))) ts,
                   if ts = [] then d else Some (Field (F (last ts)))))"
proof (induction ts arbitrary: out d)
  case Nil
  show ?case by auto
next
  case (Cons t ts)
  show ?case
  proof (cases "reconstruct_with_xgboost r (real_of_int t) c None n")
    case (Inl e)
    then show ?thesis by simp
  next
    case (Inr data_out)
    then obtain field where data_out: "data_out = Field field"
      by (auto dest: reconstruct_None_Field)
    show ?thesis
    proof (cases "field = []")
      case True
      with Inr data_out show ?thesis by auto
    next
      case False
      then have m: "np_max field = Inr (Max (set field))"
        by (simp add: np_max_eq)
      have step: "generate_loop r c n (t # ts) out d
                    = generate_loop r c n ts (out @ [Max (set field)]) (Some (Field field))"
        using Inr data_out m by simp
      show ?thesis
      proof
        assume "generate_loop r c n (t # ts) out d = Inr res"
        then have "generate_loop r c n ts (out @ [Max (set field)]) (Some (Field field)) = Inr res"
          by (simp only: step)
        then obtain F where
          F: "\<forall>t\<in>set ts. reconstruct_with_xgboost r (real_of_int t) c None n = Inr (Field (F t))
                            \<and> F t \<noteq> []"
          and res: "res = ((out @ [Max (set field)]) @ map (\<lambda>t. Max (set (F t))) ts,
                           if ts = [] then Some (Field field) else Some (Field (F (last ts))))"
          using Cons.IH by blast
        let ?F = "F(t := field)"
        have same: "?F s = F s" if "s \<in> set ts" for s
          using that F Inr data_out by (cases "s = t") auto
        have "\<forall>s\<in>set (t # ts). reconstruct_with_xgboost r (real_of_int s) c None n
                 = Inr (Field (?F s)) \<and> ?F s \<noteq> []"
          using F Inr data_out False by auto
        moreover have "map (\<lambda>s. Max (set (?F s))) ts = map (\<lambda>s. Max (set (F s))) ts"
          using same by (intro map_cong) simp_all
        then have "res = (out @ map (\<lambda>s. Max (set (?F s))) (t # ts),
                          if t # ts = [] then d else Some (Field (?F (last (t # ts)))))"
          using res same by (cases "ts = []") simp_all
        ultimately show "\<exists>F. (\<forall>s\<in>set (t # ts).
              reconstruct_with_xgboost r (real_of_int s) c None n = Inr (Field (F s)) \<and> F s \<noteq> [])
            \<and> res = (out @ map (\<lambda>s. Max (set (F s))) (t # ts),
                     if t # ts = [] then d else Some (Field (F (last (t # ts)))))"
          by blast
      next
        assume "\<exists>F. (\<forall>s\<in>set (t # ts).
              reconstruct_with_xgboost r (real_of_int s) c None n = Inr (Field (F s)) \<and> F s \<noteq> [])
            \<and> res = (out @ map (\<lambda>s. Max (set (F s))) (t # ts),
                     if t # ts = [] then d else Some (Field (F (last (t # ts)))))"
        then obtain F where
          F: "\<forall>s\<in>set (t # ts).
              reconstruct_with_xgboost r (real_of_int s) c None n = Inr (Field (F s)) \<and> F s \<noteq> []"
          and res: "res = (out @ map (\<lambda>s. Max (set (F s))) (t # ts),
                           if t # ts = [] then d else Some (Field (F (last (t # ts)))))"
          by blast
        from F Inr data_out have Ft: "F t = field" by simp
        have "(\<forall>s\<in>set ts. reconstruct_with_xgboost r (real_of_int s) c None n = Inr (Field (F s))
                  \<and> F s \<noteq> [])
              \<and> res = ((out @ [Max (set field)]) @ map (\<lambda>s. Max (set (F s))) ts,
                       if ts = [] then Some (Field field) else Some (Field (F (last ts))))"
          using F res Ft by simp
        then have "generate_loop r c n ts (out @ [Max (set field)]) (Some (Field field)) = Inr res"
          using Cons.IH by blast
        then show "generate_loop r c n (t # ts) out d = Inr res"
          by (simp only: step)
      qed
    qed
  qed
qed

lemma generate_data_iff:
  "generate_data c r n = Inr (series, snapshot) \<longleftrightarrow>
     (\<exists>F. (\<forall>t\<in>set time_list. reconstruct_with_xgboost r (real_of_int t) c None n = Inr (Field (F t))
                               \<and> F t \<noteq> [])
          \<and> series = map (\<lambda>t. (real_of_int t, Max (set (F t)))) time_list
          \<and> snapshot = Field (F 60))"
proof
  have ne: "time_list \<noteq> []" and l: "last time_list = 60"
    by (simp_all add: time_list_eq)
  have z: "zip (map real_of_int ts) (map (\<lambda>t. Max (set (F t))) ts)
             = map (\<lambda>t. (real_of_int t, Max (set (F t)))) ts" for F and ts :: "int list"
    by (induction ts) simp_all
  {
    assume "generate_data c r n = Inr (series, snapshot)"
    then obtain out_temp where
      loop: "generate_loop r c n time_list [] None = Inr (out_temp, Some snapshot)"
      and series: "series = zip (map real_of_int time_list) out_temp"
      by (auto simp: generate_data_def split: sum.splits option.splits)
    from loop obtain F where
      F: "\<forall>t\<in>set time_list. reconstruct_with_xgboost r (real_of_int t) c None n = Inr (Field (F t))
                               \<and> F t \<noteq> []"
      and res: "(out_temp, Some snapshot)
                  = ([] @ map (\<lambda>t. Max (set (F t))) time_list,
                     if time_list = [] then None else Some (Field (F (last time_list))))"
      unfolding generate_loop_iff by blast
    from res ne l have "out_temp = map (\<lambda>t. Max (set (F t))) time_list" "snapshot = Field (F 60)"
      by simp_all
    with F series z [of time_list F]
    show "\<exists>F. (\<forall>t\<in>set time_list. reconstruct_with_xgboost r (real_of_int t) c None n = Inr (Field (F t))
                               \<and> F t \<noteq> [])
          \<and> series = map (\<lambda>t. (real_of_int t, Max (set (F t)))) time_list
          \<and> snapshot = Field (F 60)"
      by auto
  }
  {
    assume "\<exists>F. (\<forall>t\<in>set time_list. reconstruct_with_xgboost r (real_of_int t) c None n = Inr (Field (F t))
                               \<and> F t \<noteq> [])
          \<and> series = map (\<lambda>t. (real_of_int t, Max (set (F t)))) time_list
          \<and> snapshot = Field (F 60)"
    then obtain F where
      F: "\<forall>t\<in>set time_list. reconstruct_with_xgboost r (real_of_int t) c None n = Inr (Field (F t))
                               \<and> F t \<noteq> []"
      and series: "series = map (\<lambda>t. (real_of_int t, Max (set (F t)))) time_list"
      and snapshot: "snapshot = Field (F 60)"
      by blast
    have "(\<forall>t\<in>set time_list. reconstruct_with_xgboost r (real_of_int t) c None n = Inr (Field (F t))
                               \<and> F t \<noteq> [])
          \<and> (map (\<lambda>t. Max (set (F t))) time_list, Some snapshot)
              = ([] @ map (\<lambda>t. Max (set (F t))) time_list,
                 if time_list = [] then None else Some (Field (F (last time_list))))"
      using F ne l snapshot by simp
    then have "generate_loop r c n time_list [] None
                 = Inr (map (\<lambda>t. Max (set (F t))) time_list, Some snapshot)"
      unfolding generate_loop_iff by blast
    then show "generate_data c r n = Inr (series, snapshot)"
      using series z [of time_list F] by (simp add: generate_data_def)
  }
qed

lemma reconstruct_example_field:
  "reconstruct_with_xgboost example_basis t param_list None 2 = Inr (Field [2, 3])"
proof -
  have l: "length (xgb_model example_basis (t # param_list)) \<noteq> 1"
    by (simp add: example_basis_def Reconstructor_init_def)
  have m: "morph_model [1, 1] [0, 0] [[1, 0], [0, 1]] [2, 3] (Suc (Suc 0)) = Inr [2, 3]"
    by (simp add: morph_model_def vec_add_def vec_scale_def upt_rec)
  show ?thesis
    using m by (simp add: reconstruct_many [OF l]) (simp add: example_basis_def Reconstructor_init_def)
qed

text \<open>
  C4. Time-series generation returns exactly when each of the twelve reconstructions at
  the times 5, 10, ..., 60 returns a field with an entry, and what it then returns as the
  series is one row for each of these times, in this order, holding the time and the
  maximum of the full field reconstructed at that time.
\<close>

theorem generate_data_series:
  "(\<exists>snapshot. generate_data coeff_list recon_model num_modes = Inr (series, snapshot)) \<longleftrightarrow>
     (\<exists>F. (\<forall>t\<in>set [5, 10, 15, 20, 25, 30, 35, 40, 45, 50, 55, 60].
              reconstruct_with_xgboost recon_model (real_of_int t) coeff_list None num_modes
                = Inr (Field (F t)) \<and> F t \<noteq> [])
          \<and> series = map (\<lambda>t. (real_of_int t, Max (set (F t))))
                        [5, 10, 15, 20, 25, 30, 35, 40, 45, 50, 55, 60])"
  unfolding generate_data_iff time_list_eq by blast

theorem generate_data_series_witness:
  "\<exists>snapshot. generate_data [1] example_basis 2 = Inr (example_series, snapshot)"
proof -
  have "(\<forall>t\<in>set [5, 10, 15, 20, 25, 30, 35, 40, 45, 50, 55, 60].
            reconstruct_with_xgboost example_basis (real_of_int t) [1] None 2
              = Inr (Field ((\<lambda>t. [2, 3]) t)) \<and> (\<lambda>t. [2, 3 :: real]) t \<noteq> [])
        \<and> example_series = map (\<lambda>t. (real_of_int t, Max (set ((\<lambda>t. [2, 3]) t))))
                              [5, 10, 15, 20, 25, 30, 35, 40, 45, 50, 55, 60]"
    by (simp add: reconstruct_example_field example_series_def)
  then have "\<exists>F. (\<forall>t\<in>set [5, 10, 15, 20, 25, 30, 35, 40, 45, 50, 55, 60].
                reconstruct_with_xgboost example_basis (real_of_int t) [1] None 2
                  = Inr (Field (F t)) \<and> F t \<noteq> [])
            \<and> example_series = map (\<lambda>t. (real_of_int t, Max (set (F t))))
                                  [5, 10, 15, 20, 25, 30, 35, 40, 45, 50, 55, 60]"
    by (rule exI [of _ "\<lambda>t. [2, 3]"])
  then show ?thesis
    by (rule generate_data_series [of "[1]" example_basis 2 example_series, THEN iffD2])
qed

text \<open>
  C7. The second output is the full, unreduced field of the last time point: time-series
  generation returns exactly when each of the twelve reconstructions returns a field with
  an entry, and the snapshot is then the field reconstructed at time 60, whose maximum
  alone stands in the last row of the series.
\<close>

theorem generate_data_snapshot:
  "generate_data coeff_list recon_model num_modes = Inr (series, snapshot) \<longleftrightarrow>
     (\<exists>F. (\<forall>t\<in>set [5, 10, 15, 20, 25, 30, 35, 40, 45, 50, 55, 60].
              reconstruct_with_xgboost recon_model (real_of_int t) coeff_list None num_modes
                = Inr (Field (F t)) \<and> F t \<noteq> [])
          \<and> snapshot = Field (F 60)
          \<and> series = map (\<lambda>t. (real_of_int t, Max (set (F t))))
                        [5, 10, 15, 20, 25, 30, 35, 40, 45, 50, 55, 60])"
  unfolding generate_data_iff time_list_eq by blast

theorem generate_data_snapshot_witness:
  "generate_data [1] example_basis 2 = Inr (example_series, Field [2, 3])
   \<and> reconstruct_with_xgboost example_basis 60 [1] None 2 = Inr (Field [2, 3])
   \<and> last example_series = (60, 3)"
proof -
  have "(\<forall>t\<in>set [5, 10, 15, 20, 25, 30, 35, 40, 45, 50, 55, 60].
            reconstruct_with_xgboost example_basis (real_of_int t) [1] None 2
              = Inr (Field ((\<lambda>t. [2, 3]) t)) \<and> (\<lambda>t. [2, 3 :: real]) t \<noteq> [])
        \<and> Field [2, 3] = Field ((\<lambda>t. [2, 3]) (60 :: int))
        \<and> example_series = map (\<lambda>t. (real_of_int t, Max (set ((\<lambda>t. [2, 3]) t))))
                              [5, 10, 15, 20, 25, 30, 35, 40, 45, 50, 55, 60]"
    by (simp add: reconstruct_example_field example_series_def)
  then have "\<exists>F. (\<forall>t\<in>set [5, 10, 15, 20, 25, 30, 35, 40, 45, 50, 55, 60].
                reconstruct_with_xgboost example_basis (real_of_int t) [1] None 2
                  = Inr (Field (F t)) \<and> F t \<noteq> [])
            \<and> Field [2, 3] = Field (F 60)
            \<and> example_series = map (\<lambda>t. (real_of_int t, Max (set (F t))))
                                  [5, 10, 15, 20, 25, 30, 35, 40, 45, 50, 55, 60]"
    by (rule exI [of _ "\<lambda>t. [2, 3]"])
  then have "generate_data [1] example_basis 2 = Inr (example_series, Field [2, 3])"
    by (rule generate_data_snapshot
          [of "[1]" example_basis 2 example_series "Field [2, 3]", THEN iffD2])
  then show ?thesis
    by (simp add: reconstruct_example_field example_series_def)
qed


subsection \<open>Config parsing\<close>

lemma map_of_filter_None: "map_of xs k = None \<Longrightarrow> map_of (filter P xs) k = None"
  by (induction xs) (auto split: if_splits)

lemma app_loop_skip:
  assumes c: "getitem config ''apps'' = Inr (JObj apps)"
    and c': "getitem config' ''apps'' = Inr (JObj (filter (\<lambda>(fname, app). \<not> other_type app) apps))"
  shows "app_loop ops config names out =
         app_loop ops config'
           (filter (\<lambda>fname. case map_of apps fname of None \<Rightarrow> True | Some app \<Rightarrow> \<not> other_type app) names)
           out"
proof (induction names arbitrary: out)
  case Nil
  show ?case by simp
next
  case (Cons fname names)
  have IH: "app_loop ops config names =
            app_loop ops config'
              (filter (\<lambda>fname. case map_of apps fname of None \<Rightarrow> True | Some app \<Rightarrow> \<not> other_type app)
                 names)"
    by (rule ext) (rule Cons.IH)
  show ?case
  proof (cases "map_of apps fname")
    case None
    then have "map_of (filter (\<lambda>(fname, app). \<not> other_type app) apps) fname = None"
      by (rule map_of_filter_None)
    with None show ?thesis
      by (simp add: c c' err_bind_def)
  next
    case (Some app)
    show ?thesis
    proof (cases "other_type app")
      case True
      then obtain app_type where "getitem app ''type'' = Inr app_type" "app_type \<noteq> JStr ''moose''"
        by (auto simp: other_type_def split: sum.splits)
      with Some True show ?thesis
        by (simp add: c err_bind_def IH)
    next
      case False
      with Some have f: "map_of (filter (\<lambda>(fname, app). \<not> other_type app) apps) fname = Some app"
        by (simp add: map_of_filter_in)
      from False consider e where "getitem app ''type'' = Inl e"
        | "getitem app ''type'' = Inr (JStr ''moose'')"
        by (cases "getitem app ''type''") (auto simp: other_type_def)
      then show ?thesis
      proof cases
        case 1
        with Some False f show ?thesis
          by (simp add: c c' err_bind_def)
      next
        case 2
        with Some False f show ?thesis
          by (simp add: c c' err_bind_def IH)
      qed
    qed
  qed
qed

lemma filter_keys_distinct:
  "distinct (map fst xs) \<Longrightarrow>
     filter (\<lambda>k. case map_of xs k of None \<Rightarrow> True | Some v \<Rightarrow> P v) (map fst xs)
       = map fst (filter (\<lambda>(k, v). P v) xs)"
proof (induction xs)
  case Nil
  show ?case by simp
next
  case (Cons x xs)
  obtain k v where x: "x = (k, v)" by (cases x)
  from Cons.prems have d: "distinct (map fst xs)" and k: "k \<notin> fst ` set xs"
    by (simp_all add: x)
  have "filter (\<lambda>k'. case map_of (x # xs) k' of None \<Rightarrow> True | Some v \<Rightarrow> P v) (map fst xs)
          = filter (\<lambda>k'. case map_of xs k' of None \<Rightarrow> True | Some v \<Rightarrow> P v) (map fst xs)"
    using k by (intro filter_cong) (auto simp: x)
  with Cons.IH [OF d] show ?case
    by (simp add: x)
qed

text \<open>
  C10. Only apps of type \<open>moose\<close> are inspected. Removing from a config every app that has
  another type changes nothing in the outcome of parsing, neither the lists nor an error:
  such an app contributes no parameter and raises nothing, whatever its entries declare.
\<close>

theorem non_moose_apps_skipped:
  assumes "getitem config ''apps'' = Inr (JObj apps)"
    and "distinct (map fst apps)"
    and "getitem config' ''apps'' = Inr (JObj (filter (\<lambda>(fname, app). \<not> other_type app) apps))"
  shows "get_parameters_from_config ops config = get_parameters_from_config ops config'"
  using assms(2)
  by (simp add: get_parameters_from_config_def assms(1,3) err_bind_def
        app_loop_skip [OF assms(1,3)] filter_keys_distinct)

theorem non_moose_apps_skipped_witness:
  "get_parameters_from_config small_ops json_first_config
     = Inr ([JStr ''Coolant temperature''], [300], [350])"
proof -
  have a: "getitem json_first_config ''apps'' = Inr (JObj [(''post'', post_app), (''hive'', hive_app)])"
    by (simp add: json_first_config_def)
  have d: "distinct (map fst [(''post'', post_app), (''hive'', hive_app)])"
    by simp
  have f: "filter (\<lambda>(fname, app). \<not> other_type app) [(''post'', post_app), (''hive'', hive_app)]
             = [(''hive'', hive_app)]"
    by (simp add: other_type_def post_app_def hive_app_def)
  have b: "getitem hive_only_config ''apps''
             = Inr (JObj (filter (\<lambda>(fname, app). \<not> other_type app)
                            [(''post'', post_app), (''hive'', hive_app)]))"
    unfolding f by (simp add: hive_only_config_def)
  have "get_parameters_from_config small_ops hive_only_config
          = Inr ([JStr ''Coolant temperature''], [300], [350])"
    by (simp add: get_parameters_from_config_def hive_only_config_def hive_app_def
          uniform_entry_def err_bind_def param_body_def small_ops_def int_to_float_def)
  with non_moose_apps_skipped [OF a d b, of small_ops] show ?thesis
    by simp
qed


text \<open>A loop over a list of names run in two parts: the second part starts from what the
  first part has built, and is not run when the first part raises.\<close>

lemma param_loop_append:
  "param_loop ops uq_config key_i (xs @ ys) out =
     err_bind (param_loop ops uq_config key_i xs out) (param_loop ops uq_config key_i ys)"
  by (induction xs arbitrary: out) (simp_all add: err_bind_def split: sum.splits)

lemma key_loop_append:
  "key_loop ops uq_config (xs @ ys) out =
     err_bind (key_loop ops uq_config xs out) (key_loop ops uq_config ys)"
  by (induction xs arbitrary: out) (simp_all add: err_bind_def split: sum.splits)

lemma app_loop_append:
  "app_loop ops config (xs @ ys) out =
     err_bind (app_loop ops config xs out) (app_loop ops config ys)"
  by (induction xs arbitrary: out) (simp_all add: err_bind_def split: sum.splits)

lemma getitem_Inr:
  "getitem j k = Inr v \<Longrightarrow> \<exists>kvs. j = JObj kvs \<and> map_of kvs k = Some v \<and> k \<in> set (map fst kvs)"
  by (cases j) (auto split: option.splits dest: map_of_SomeD intro: rev_image_eqI)

lemma param_body_non_uniform:
  assumes "getitem uq_config key_i = Inr params" and "getitem params param_i = Inr entry"
    and "getitem entry ''distribution'' = Inr distribution"
    and "getitem distribution ''name'' = Inr name" and "name \<noteq> JStr ''uniform''"
  shows "param_body ops uq_config key_i param_i out = Inl NotImplementedError"
  using assms by (simp add: param_body_def err_bind_def split: prod.splits)

lemma param_loop_reached:
  assumes "\<And>out. param_body ops uq_config key_i param_i out = Inl NotImplementedError"
    and "param_loop ops uq_config key_i ppre out = Inr out'"
  shows "param_loop ops uq_config key_i (ppre @ param_i # ppost) out = Inl NotImplementedError"
  using assms by (simp add: param_loop_append err_bind_def)

lemma param_loop_raises:
  assumes body: "\<And>out. param_body ops uq_config key_i param_i out = Inl NotImplementedError"
    and "param_i \<in> set names"
  shows "\<exists>e. param_loop ops uq_config key_i names out = Inl e"
proof -
  from assms(2) obtain ppre ppost where "names = ppre @ param_i # ppost"
    by (auto dest: split_list)
  then show ?thesis
    by (cases "param_loop ops uq_config key_i ppre out")
       (simp_all add: param_loop_append err_bind_def body)
qed

lemma key_loop_reached:
  assumes "getitem uq_config key_i = Inr params" and "iter params = Inr param_names"
    and "param_loop ops uq_config key_i param_names out' = Inl NotImplementedError"
    and "key_loop ops uq_config kpre out = Inr out'"
  shows "key_loop ops uq_config (kpre @ key_i # kpost) out = Inl NotImplementedError"
  using assms by (simp add: key_loop_append err_bind_def)

lemma key_loop_raises:
  assumes "getitem uq_config key_i = Inr params" and "iter params = Inr param_names"
    and inner: "\<And>out. \<exists>e. param_loop ops uq_config key_i param_names out = Inl e"
    and "key_i \<in> set names"
  shows "\<exists>e. key_loop ops uq_config names out = Inl e"
proof -
  from assms(4) obtain kpre kpost where names: "names = kpre @ key_i # kpost"
    by (auto dest: split_list)
  show ?thesis
  proof (cases "key_loop ops uq_config kpre out")
    case (Inl e)
    then show ?thesis by (simp add: names key_loop_append err_bind_def)
  next
    case (Inr out')
    from inner obtain e where "param_loop ops uq_config key_i param_names out' = Inl e"
      by blast
    with Inr assms(1,2) show ?thesis
      by (simp add: names key_loop_append err_bind_def)
  qed
qed

lemma app_loop_reached:
  assumes "getitem config ''apps'' = Inr apps" and "getitem apps fname = Inr app"
    and "getitem app ''type'' = Inr (JStr ''moose'')"
    and "getitem app ''uncertain-params'' = Inr uq_config" and "iter uq_config = Inr uq_keys"
    and "key_loop ops uq_config uq_keys out' = Inl NotImplementedError"
    and "app_loop ops config pre out = Inr out'"
  shows "app_loop ops config (pre @ fname # post) out = Inl NotImplementedError"
  using assms by (simp add: app_loop_append err_bind_def)

lemma app_loop_raises:
  assumes "getitem config ''apps'' = Inr apps" and "getitem apps fname = Inr app"
    and "getitem app ''type'' = Inr (JStr ''moose'')"
    and "getitem app ''uncertain-params'' = Inr uq_config" and "iter uq_config = Inr uq_keys"
    and inner: "\<And>out. \<exists>e. key_loop ops uq_config uq_keys out = Inl e"
    and "fname \<in> set names"
  shows "\<exists>e. app_loop ops config names out = Inl e"
proof -
  from assms(7) obtain pre post where names: "names = pre @ fname # post"
    by (auto dest: split_list)
  show ?thesis
  proof (cases "app_loop ops config pre out")
    case (Inl e)
    then show ?thesis by (simp add: names app_loop_append err_bind_def)
  next
    case (Inr out')
    from inner obtain e where "key_loop ops uq_config uq_keys out' = Inl e"
      by blast
    with Inr assms(1-5) show ?thesis
      by (simp add: names app_loop_append err_bind_def)
  qed
qed

text \<open>
  C3 (as the code has it). Take a parameter entry under an app of type \<open>moose\<close> whose
  distribution name is not \<open>uniform\<close>. Parsing then returns no list at all: it fails. And
  when parsing encounters the entry, that is when the apps before its app, the keys before
  its key and the entries before it have been read without an error, the failure is
  \<open>NotImplementedError\<close>, whatever follows the entry in the file. Nothing is asked of the
  rest of the config. Entries of apps of another type are not looked at (see C10).
\<close>

theorem non_uniform_moose_entry:
  assumes apps: "getitem config ''apps'' = Inr apps"
    and app: "getitem apps fname = Inr app"
    and ty: "getitem app ''type'' = Inr (JStr ''moose'')"
    and uq: "getitem app ''uncertain-params'' = Inr uq_config"
    and params: "getitem uq_config key_i = Inr params"
    and entry: "getitem params param_i = Inr entry"
    and distribution: "getitem entry ''distribution'' = Inr distribution"
    and name: "getitem distribution ''name'' = Inr name"
    and non_uniform: "name \<noteq> JStr ''uniform''"
  shows "(\<exists>e. get_parameters_from_config ops config = Inl e)
       \<and> (\<forall>pre post kpre kpost ppre ppost out1 out2 out3.
             keys apps = Inr (pre @ fname # post)
           \<and> app_loop ops config pre ([], [], []) = Inr out1
           \<and> iter uq_config = Inr (kpre @ key_i # kpost)
           \<and> key_loop ops uq_config kpre out1 = Inr out2
           \<and> iter params = Inr (ppre @ param_i # ppost)
           \<and> param_loop ops uq_config key_i ppre out2 = Inr out3
           \<longrightarrow> get_parameters_from_config ops config = Inl NotImplementedError)"
proof (intro conjI allI impI)
  have body: "param_body ops uq_config key_i param_i out = Inl NotImplementedError" for out
    by (rule param_body_non_uniform [OF params entry distribution name non_uniform])
  from app obtain akvs where akvs: "apps = JObj akvs" "fname \<in> set (map fst akvs)"
    by (auto dest: getitem_Inr)
  from params obtain ukvs where ukvs: "uq_config = JObj ukvs" "key_i \<in> set (map fst ukvs)"
    by (auto dest: getitem_Inr)
  from entry obtain pkvs where pkvs: "params = JObj pkvs" "param_i \<in> set (map fst pkvs)"
    by (auto dest: getitem_Inr)
  have p: "\<exists>e. param_loop ops uq_config key_i (map fst pkvs) out = Inl e" for out
    by (rule param_loop_raises [OF body pkvs(2)])
  have ip: "iter params = Inr (map fst pkvs)"
    by (simp add: pkvs(1))
  have k: "\<exists>e. key_loop ops uq_config (map fst ukvs) out = Inl e" for out
    by (rule key_loop_raises [OF params ip p ukvs(2)])
  have iu: "iter uq_config = Inr (map fst ukvs)"
    by (simp add: ukvs(1))
  have "\<exists>e. app_loop ops config (map fst akvs) ([], [], []) = Inl e"
    by (rule app_loop_raises [OF apps app ty uq iu k akvs(2)])
  then show "\<exists>e. get_parameters_from_config ops config = Inl e"
    by (simp add: get_parameters_from_config_def apps akvs(1) err_bind_def)
next
  fix pre post kpre kpost ppre ppost out1 out2 out3
  assume h: "keys apps = Inr (pre @ fname # post)
           \<and> app_loop ops config pre ([], [], []) = Inr out1
           \<and> iter uq_config = Inr (kpre @ key_i # kpost)
           \<and> key_loop ops uq_config kpre out1 = Inr out2
           \<and> iter params = Inr (ppre @ param_i # ppost)
           \<and> param_loop ops uq_config key_i ppre out2 = Inr out3"
  have body: "param_body ops uq_config key_i param_i out = Inl NotImplementedError" for out
    by (rule param_body_non_uniform [OF params entry distribution name non_uniform])
  from h have "param_loop ops uq_config key_i (ppre @ param_i # ppost) out2 = Inl NotImplementedError"
    by (intro param_loop_reached [OF body]) simp
  with h have "key_loop ops uq_config (kpre @ key_i # kpost) out1 = Inl NotImplementedError"
    by (intro key_loop_reached [OF params]) simp_all
  with h have "app_loop ops config (pre @ fname # post) ([], [], []) = Inl NotImplementedError"
    by (intro app_loop_reached [OF apps app ty uq]) simp_all
  with h show "get_parameters_from_config ops config = Inl NotImplementedError"
    by (simp add: get_parameters_from_config_def apps err_bind_def)
qed

theorem non_uniform_moose_entry_witness:
  "get_parameters_from_config small_ops moose_normal_config = Inl NotImplementedError"
proof -
  let ?groups = "JObj [(''BCs'', JObj [(''coolant'', uniform_entry)]),
                       (''Materials'', JObj [(''k'', normal_entry), (''rho'', unlabelled_entry)])]"
  let ?materials = "JObj [(''k'', normal_entry), (''rho'', unlabelled_entry)]"
  let ?out = "([JStr ''Coolant temperature''], [300], [350]) :: real param_lists"
  have apps: "getitem moose_normal_config ''apps'' = Inr (JObj [(''hive'', materials_app)])"
    by (simp add: moose_normal_config_def)
  have app: "getitem (JObj [(''hive'', materials_app)]) ''hive'' = Inr materials_app"
    by simp
  have ty: "getitem materials_app ''type'' = Inr (JStr ''moose'')"
    by (simp add: materials_app_def)
  have uq: "getitem materials_app ''uncertain-params'' = Inr ?groups"
    by (simp add: materials_app_def)
  have params: "getitem ?groups ''Materials'' = Inr ?materials"
    by simp
  have entry: "getitem ?materials ''k'' = Inr normal_entry"
    by simp
  have distribution: "getitem normal_entry ''distribution''
      = Inr (JObj [(''name'', JStr ''normal''), (''loc'', JInt 1), (''scale'', JInt 2)])"
    by (simp add: normal_entry_def)
  have name: "getitem (JObj [(''name'', JStr ''normal''), (''loc'', JInt 1), (''scale'', JInt 2)])
                ''name'' = Inr (JStr ''normal'' :: real json)"
    by simp
  have non_uniform: "(JStr ''normal'' :: real json) \<noteq> JStr ''uniform''"
    by simp
  have reached:
    "keys (JObj [(''hive'', materials_app)]) = Inr ([] @ ''hive'' # [])
     \<and> app_loop small_ops moose_normal_config [] ([], [], []) = Inr ([], [], [])
     \<and> iter ?groups = Inr ([''BCs''] @ ''Materials'' # [])
     \<and> key_loop small_ops ?groups [''BCs''] ([], [], []) = Inr ?out
     \<and> iter ?materials = Inr ([] @ ''k'' # [''rho''])
     \<and> param_loop small_ops ?groups ''Materials'' [] ?out = Inr ?out"
    by (simp add: err_bind_def param_body_def uniform_entry_def small_ops_def int_to_float_def)
  from non_uniform_moose_entry
         [OF apps app ty uq params entry distribution name non_uniform, of small_ops]
  have "\<forall>pre post kpre kpost ppre ppost out1 out2 out3.
             keys (JObj [(''hive'', materials_app)]) = Inr (pre @ ''hive'' # post)
           \<and> app_loop small_ops moose_normal_config pre ([], [], []) = Inr out1
           \<and> iter ?groups = Inr (kpre @ ''Materials'' # kpost)
           \<and> key_loop small_ops ?groups kpre out1 = Inr out2
           \<and> iter ?materials = Inr (ppre @ ''k'' # ppost)
           \<and> param_loop small_ops ?groups ''Materials'' ppre out2 = Inr out3
           \<longrightarrow> get_parameters_from_config small_ops moose_normal_config = Inl NotImplementedError"
    by (rule conjunct2)
  with reached show ?thesis
    by blast
qed

theorem non_uniform_entry_ignored:
  "getitem mixed_config ''apps'' = Inr (JObj [(''hive'', hive_app), (''post'', post_app)])
   \<and> getitem post_app ''type'' = Inr (JStr ''json'')
   \<and> getitem post_app ''uncertain-params'' = Inr (JObj [(''Materials'', JObj [(''k'', normal_entry)])])
   \<and> err_bind (getitem normal_entry ''distribution'') (\<lambda>distribution. getitem distribution ''name'')
       = Inr (JStr ''normal'')
   \<and> get_parameters_from_config small_ops mixed_config
       = Inr ([JStr ''Coolant temperature''], [300], [350])"
  by (simp add: mixed_config_def hive_app_def post_app_def normal_entry_def uniform_entry_def
        get_parameters_from_config_def err_bind_def param_body_def small_ops_def int_to_float_def)

end
